theory Spec2Isabelle
  imports Main "HOL-Library.Word" "HOL-Library.AList"
begin

unbundle bit_operations_syntax

section \<open>denova.os.command: data model\<close>

text \<open>
  The module \<^verbatim>\<open>denova/os/command.py\<close> wraps Python's \<^verbatim>\<open>subprocess\<close>.
  Command-line arguments, option names and exception messages are Python \<^verbatim>\<open>str\<close>
  values whose characters matter only at the ASCII level here; they are HOL strings.
  Captured process output is \<^verbatim>\<open>bytes\<close> until \<^verbatim>\<open>format_output\<close> decodes it;
  decoded text is a list of Unicode code points.

  Every function takes its positional arguments as strings, that is after the
  \<^verbatim>\<open>list(map(str, command_args))\<close> with which \<^verbatim>\<open>run\<close> and \<^verbatim>\<open>background\<close>
  start. Writes to the log change no value and are left out, except where building the
  log line itself raises.
\<close>

type_synonym byte = "8 word"
type_synonym bytes = "byte list"
type_synonym pystr = "nat list"

text \<open>Values a keyword option can carry. \<^verbatim>\<open>subprocess.PIPE\<close> is the integer -1.\<close>

datatype stdstream = SysStdin | SysStdout | SysStderr

datatype kwval = VBool bool | VNone | VInt int | VStr string | VStream stdstream | VPipe

text \<open>Python truthiness of an option value (\<^verbatim>\<open>if kwargs['glob']:\<close>).\<close>

fun truthy :: "kwval \<Rightarrow> bool" where
  "truthy (VBool b) = b"
| "truthy VNone = False"
| "truthy (VInt n) = (n \<noteq> 0)"
| "truthy (VStr s) = (s \<noteq> [])"
| "truthy (VStream s) = True"
| "truthy VPipe = True"

text \<open>
  \<^verbatim>\<open>**kwargs\<close> is a dict with distinct keys in insertion order: an association list.
  \<^verbatim>\<open>kwargs[k] = v\<close> is \<open>AList.update\<close> (in place when the key exists, appended
  otherwise), \<^verbatim>\<open>del kwargs[k]\<close> is \<open>AList.delete\<close>, \<^verbatim>\<open>k in kwargs\<close> is a lookup
  with \<open>map_of\<close>.
\<close>

type_synonym kwargs = "(string \<times> kwval) list"

text \<open>The value of stdout or stderr on a result object: bytes as captured, or text.\<close>

datatype outval = Bytes bytes | Str pystr

text \<open>
  \<^verbatim>\<open>subprocess.CompletedProcess\<close> and \<^verbatim>\<open>subprocess.CalledProcessError\<close> carry the same
  attributes (\<^verbatim>\<open>args\<close>/\<^verbatim>\<open>cmd\<close>, \<^verbatim>\<open>returncode\<close>, \<^verbatim>\<open>stdout\<close>, \<^verbatim>\<open>stderr\<close>);
  \<^verbatim>\<open>format_output\<close> adds \<^verbatim>\<open>stderrout\<close>. An attribute that is absent or \<^verbatim>\<open>None\<close>
  is \<open>None\<close>.
\<close>

record proc_result =
  args :: "string list"
  returncode :: int
  stdout :: "outval option"
  stderr :: "outval option"
  stderrout :: "pystr option"

text \<open>A \<^verbatim>\<open>subprocess.Popen\<close> object, as far as the module reads it.\<close>

record popen_obj =
  popen_args :: "string list"
  pid :: nat

text \<open>What a caller can hand to \<^verbatim>\<open>wait_child\<close>: a Popen object or something else.\<close>

datatype pyobj = PopenObj popen_obj | NoneObj | IntObj int | StrObj string

text \<open>
  Exceptions. \<^verbatim>\<open>OSError\<close> carries its \<^verbatim>\<open>strerror\<close> (which may be \<^verbatim>\<open>None\<close>);
  \<^verbatim>\<open>OtherException\<close> stands for every other subclass of \<^verbatim>\<open>Exception\<close> that
  a primitive may raise (\<^verbatim>\<open>TimeoutExpired\<close>, \<^verbatim>\<open>TypeError\<close>, ...).
\<close>

datatype error =
    ValueError string
  | NameError string
  | IndexError
  | TypeError
  | UnicodeDecodeError
  | OSError "string option"
  | CalledProcessError proc_result
  | OtherException string

text \<open>
  The primitives the module calls, as parameters: \<^verbatim>\<open>glob.glob\<close>, the process that
  \<^verbatim>\<open>subprocess.run\<close> spawns and waits for (before its \<^verbatim>\<open>check\<close>), \<^verbatim>\<open>subprocess.Popen\<close>,
  \<^verbatim>\<open>open(path).read(2)\<close>, \<^verbatim>\<open>os.waitpid\<close> and \<^verbatim>\<open>shlex.split\<close>.
\<close>

record env =
  glob :: "string \<Rightarrow> string list"
  spawn_wait :: "string list \<Rightarrow> kwargs \<Rightarrow> error + proc_result"
  popen :: "string list \<Rightarrow> kwargs \<Rightarrow> error + popen_obj"
  open_read2 :: "string \<Rightarrow> error + string"
  waitpid :: "nat \<Rightarrow> error + unit"
  shlex_split :: "string \<Rightarrow> error + string list"

text \<open>
  The calls a function makes to those primitives, in order, each with the arguments of
  the call as written.
\<close>

datatype event =
    EvGlob string
  | EvRun "string list" kwargs
  | EvPopen "string list" kwargs
  | EvOpen string
  | EvWaitpid nat

section \<open>get\_run\_args\<close>

definition startswith :: "string \<Rightarrow> string \<Rightarrow> bool" where
  "startswith s p \<longleftrightarrow> take (length p) s = p"

definition endswith :: "string \<Rightarrow> string \<Rightarrow> bool" where
  "endswith s p \<longleftrightarrow> take (length p) (rev s) = rev p"

text \<open>Lines 348-349: the argument starts and ends with \<^verbatim>\<open>"\<close>, or starts and ends with \<^verbatim>\<open>'\<close>.\<close>

definition encased_str :: "string \<Rightarrow> bool" where
  "encased_str arg \<longleftrightarrow>
     (startswith arg [CHR 0x22] \<and> endswith arg [CHR 0x22]) \<or>
     (startswith arg [CHR 0x27] \<and> endswith arg [CHR 0x27])"

text \<open>Line 351: \<^verbatim>\<open>'*' in arg or '?' in arg\<close>.\<close>

definition has_wildcard :: "string \<Rightarrow> bool" where
  "has_wildcard arg \<longleftrightarrow> CHR ''*'' \<in> set arg \<or> CHR ''?'' \<in> set arg"

text \<open>
  Lines 326-333: \<^verbatim>\<open>interactive\<close> is removed; when it was true the three standard
  streams are stored with \<^verbatim>\<open>kwargs.update\<close>.
\<close>

definition take_interactive :: "kwargs \<Rightarrow> kwargs" where
  "take_interactive kwargs =
     (case map_of kwargs ''interactive'' of
        None \<Rightarrow> kwargs
      | Some v \<Rightarrow>
          if truthy v
          then AList.update ''stderr'' (VStream SysStderr)
                 (AList.update ''stdout'' (VStream SysStdout)
                   (AList.update ''stdin'' (VStream SysStdin)
                     (AList.delete ''interactive'' kwargs)))
          else AList.delete ''interactive'' kwargs)"

text \<open>Lines 335-339: \<^verbatim>\<open>globbing\<close> is the value of \<^verbatim>\<open>glob\<close>, or \<^verbatim>\<open>True\<close>.\<close>

definition globbing_of :: "kwargs \<Rightarrow> kwval" where
  "globbing_of kwargs =
     (case map_of kwargs ''glob'' of Some v \<Rightarrow> v | None \<Rightarrow> VBool True)"

text \<open>
  Lines 342-358, the loop. The third parameter is the list \<^verbatim>\<open>args\<close> built so far,
  paired with the calls to \<^verbatim>\<open>glob\<close> made so far.
\<close>

fun expand_args ::
  "env \<Rightarrow> kwval \<Rightarrow> string list \<times> event list \<Rightarrow> string list \<Rightarrow> string list \<times> event list"
where
  "expand_args e globbing acc [] = acc"
| "expand_args e globbing (out, evs) (arg # rest) =
     (if has_wildcard arg
      then (if truthy globbing \<and> \<not> encased_str arg
            then expand_args e globbing (out @ glob e arg, evs @ [EvGlob arg]) rest
            else expand_args e globbing (out @ [arg], evs) rest)
      else expand_args e globbing (out @ [arg], evs) rest)"

definition get_run_args ::
  "env \<Rightarrow> string list \<Rightarrow> kwargs \<Rightarrow> (string list \<times> kwargs) \<times> event list"
where
  "get_run_args e command_args kwargs =
     (let kwargs1 = take_interactive kwargs;
          globbing = globbing_of kwargs1;
          kwargs2 = AList.delete ''glob'' kwargs1;
          (out, evs) = expand_args e globbing ([], []) command_args
      in ((out, kwargs2), evs))"

section \<open>Decoding and trimming\<close>

text \<open>
  \<^verbatim>\<open>bytes.decode()\<close> is strict UTF-8: it raises \<^verbatim>\<open>UnicodeDecodeError\<close> on a stray
  continuation byte, a truncated or overlong sequence, a surrogate or a code point
  above U+10FFFF. \<open>None\<close> is that exception.
\<close>

definition is_cont :: "byte \<Rightarrow> bool" where
  "is_cont b \<longleftrightarrow> b AND 0xC0 = 0x80"

definition cont_bits :: "byte \<Rightarrow> nat" where
  "cont_bits b = unat (b AND 0x3F)"

definition second_ok3 :: "byte \<Rightarrow> byte \<Rightarrow> bool" where
  "second_ok3 b c \<longleftrightarrow>
     (if b = 0xE0 then 0xA0 \<le> c \<and> c \<le> 0xBF
      else if b = 0xED then 0x80 \<le> c \<and> c \<le> 0x9F
      else is_cont c)"

definition second_ok4 :: "byte \<Rightarrow> byte \<Rightarrow> bool" where
  "second_ok4 b c \<longleftrightarrow>
     (if b = 0xF0 then 0x90 \<le> c \<and> c \<le> 0xBF
      else if b = 0xF4 then 0x80 \<le> c \<and> c \<le> 0x8F
      else is_cont c)"

fun utf8_decode :: "bytes \<Rightarrow> pystr option" where
  "utf8_decode [] = Some []"
| "utf8_decode (b # bs) =
     (if b < 0x80 then map_option ((#) (unat b)) (utf8_decode bs)
      else if 0xC2 \<le> b \<and> b \<le> 0xDF then
        (case bs of
           c1 # r \<Rightarrow>
             if is_cont c1
             then map_option ((#) (unat (b AND 0x1F) * 64 + cont_bits c1)) (utf8_decode r)
             else None
         | _ \<Rightarrow> None)
      else if 0xE0 \<le> b \<and> b \<le> 0xEF then
        (case bs of
           c1 # c2 # r \<Rightarrow>
             if second_ok3 b c1 \<and> is_cont c2
             then map_option
                    ((#) (unat (b AND 0x0F) * 4096 + cont_bits c1 * 64 + cont_bits c2))
                    (utf8_decode r)
             else None
         | _ \<Rightarrow> None)
      else if 0xF0 \<le> b \<and> b \<le> 0xF4 then
        (case bs of
           c1 # c2 # c3 # r \<Rightarrow>
             if second_ok4 b c1 \<and> is_cont c2 \<and> is_cont c3
             then map_option
                    ((#) (unat (b AND 0x07) * 262144 + cont_bits c1 * 4096
                          + cont_bits c2 * 64 + cont_bits c3))
                    (utf8_decode r)
             else None
         | _ \<Rightarrow> None)
      else None)"

text \<open>
  \<^verbatim>\<open>str.strip()\<close> removes, at both ends, the characters for which \<^verbatim>\<open>str.isspace\<close>
  holds: the code points below.
\<close>

definition isspace :: "nat \<Rightarrow> bool" where
  "isspace c \<longleftrightarrow>
     (0x09 \<le> c \<and> c \<le> 0x0D) \<or> (0x1C \<le> c \<and> c \<le> 0x20) \<or> c = 0x85 \<or> c = 0xA0 \<or>
     c = 0x1680 \<or> (0x2000 \<le> c \<and> c \<le> 0x200A) \<or> c = 0x2028 \<or> c = 0x2029 \<or>
     c = 0x202F \<or> c = 0x205F \<or> c = 0x3000"

definition strip :: "pystr \<Rightarrow> pystr" where
  "strip s = rev (dropWhile isspace (rev (dropWhile isspace s)))"

section \<open>format\_output, update\_stderrout, handle\_run\_error\<close>

text \<open>
  Lines 376-378 and 382-384: \<^verbatim>\<open>if not isinstance(x, str): x = x.decode()\<close>, then
  \<^verbatim>\<open>x = x.strip()\<close>.
\<close>

definition decode_strip :: "outval \<Rightarrow> error + pystr" where
  "decode_strip v =
     (case v of
        Str s \<Rightarrow> Inr (strip s)
      | Bytes b \<Rightarrow>
          (case utf8_decode b of
             None \<Rightarrow> Inl UnicodeDecodeError
           | Some s \<Rightarrow> Inr (strip s)))"

text \<open>Lines 375-379, the block \<^verbatim>\<open>if result.stderr is not None:\<close>.\<close>

definition stderr_block :: "proc_result \<Rightarrow> error + proc_result" where
  "stderr_block result =
     (case stderr result of
        None \<Rightarrow> Inr result
      | Some v \<Rightarrow>
          (case decode_strip v of
             Inl x \<Rightarrow> Inl x
           | Inr s \<Rightarrow> Inr (result\<lparr>stderr := Some (Str s), stderrout := Some s\<rparr>)))"

text \<open>
  Lines 381-388, the block \<^verbatim>\<open>if result.stdout is not None:\<close>. \<^verbatim>\<open>if result.stderr:\<close>
  is false for \<^verbatim>\<open>None\<close> and for the empty string; \<^verbatim>\<open>result.stderr + result.stdout\<close>
  concatenates two strings (bytes plus a string would be a \<^verbatim>\<open>TypeError\<close>).
\<close>

definition stdout_block :: "proc_result \<Rightarrow> error + proc_result" where
  "stdout_block result =
     (case stdout result of
        None \<Rightarrow> Inr result
      | Some v \<Rightarrow>
          (case decode_strip v of
             Inl x \<Rightarrow> Inl x
           | Inr s \<Rightarrow>
               (case stderr result of
                  None \<Rightarrow> Inr (result\<lparr>stdout := Some (Str s), stderrout := Some s\<rparr>)
                | Some (Str err) \<Rightarrow>
                    Inr (result\<lparr>stdout := Some (Str s),
                                stderrout := Some (if err \<noteq> [] then err @ s else s)\<rparr>)
                | Some (Bytes b) \<Rightarrow>
                    if b \<noteq> [] then Inl TypeError
                    else Inr (result\<lparr>stdout := Some (Str s), stderrout := Some s\<rparr>))))"

definition format_output :: "proc_result \<Rightarrow> error + proc_result" where
  "format_output result =
     (case stderr_block (result\<lparr>stderrout := None\<rparr>) of
        Inl x \<Rightarrow> Inl x
      | Inr result1 \<Rightarrow> stdout_block result1)"

text \<open>Lines 406-426: the same statements as \<^verbatim>\<open>format_output\<close>.\<close>

definition update_stderrout :: "proc_result \<Rightarrow> error + proc_result" where
  "update_stderrout result =
     (case stderr_block (result\<lparr>stderrout := None\<rparr>) of
        Inl x \<Rightarrow> Inl x
      | Inr result1 \<Rightarrow> stdout_block result1)"

text \<open>
  Lines 393-404: the function logs, then calls \<^verbatim>\<open>update_stderrout(cpe)\<close>, which
  mutates the exception object; it returns \<^verbatim>\<open>None\<close>. The model returns the object
  as the call leaves it. Writes to the log are not modelled.
\<close>

definition handle_run_error :: "string list \<Rightarrow> proc_result \<Rightarrow> error + proc_result" where
  "handle_run_error command_args cpe = update_stderrout cpe"

section \<open>run\<close>

text \<open>
  The call \<^verbatim>\<open>subprocess.run(args, check=True, **kwargs)\<close>. A \<^verbatim>\<open>check\<close> among
  \<^verbatim>\<open>kwargs\<close> gives the keyword twice, a \<^verbatim>\<open>TypeError\<close>. Otherwise the process runs
  to completion, and \<^verbatim>\<open>check=True\<close> raises a non-zero return code as
  \<^verbatim>\<open>CalledProcessError\<close> with the return code, the command and the captured streams.
\<close>

definition subprocess_run :: "env \<Rightarrow> string list \<Rightarrow> kwargs \<Rightarrow> error + proc_result" where
  "subprocess_run e argv kwargs =
     (if map_of kwargs ''check'' \<noteq> None then Inl TypeError else spawn_wait e argv kwargs)"

definition subprocess_run_check :: "env \<Rightarrow> string list \<Rightarrow> kwargs \<Rightarrow> error + proc_result" where
  "subprocess_run_check e argv kwargs =
     (case subprocess_run e argv kwargs of
        Inl x \<Rightarrow> Inl x
      | Inr completed \<Rightarrow>
          if returncode completed \<noteq> 0 then Inl (CalledProcessError completed)
          else Inr completed)"

text \<open>Lines 142-144: \<^verbatim>\<open>if output not in kwargs: kwargs[output] = subprocess.PIPE\<close>.\<close>

definition default_pipe :: "string \<Rightarrow> kwargs \<Rightarrow> kwargs" where
  "default_pipe output kwargs =
     (case map_of kwargs output of
        None \<Rightarrow> AList.update output VPipe kwargs
      | Some v \<Rightarrow> kwargs)"

text \<open>
  Lines 120-144: the argument list and the keyword options that reach
  \<^verbatim>\<open>subprocess.run\<close>. \<^verbatim>\<open>verbose\<close> and \<^verbatim>\<open>output_bytes\<close> are read and deleted;
  \<^verbatim>\<open>verbose\<close> only switches log lines on, and \<^verbatim>\<open>output_bytes\<close> is not read again
  anywhere in the module.
\<close>

definition run_prepare ::
  "env \<Rightarrow> string list \<Rightarrow> kwargs \<Rightarrow> (string list \<times> kwargs) \<times> event list"
where
  "run_prepare e command_args kwargs =
     (let ((argv, kwargs1), evs) = get_run_args e command_args kwargs;
          verbose = (case map_of kwargs1 ''verbose'' of Some v \<Rightarrow> v | None \<Rightarrow> VBool False);
          kwargs2 = AList.delete ''verbose'' kwargs1;
          output_bytes =
            (case map_of kwargs2 ''output_bytes'' of Some v \<Rightarrow> v | None \<Rightarrow> VBool False);
          kwargs3 = AList.delete ''output_bytes'' kwargs2;
          kwargs4 = default_pipe ''stderr'' (default_pipe ''stdout'' kwargs3)
      in ((argv, kwargs4), evs))"

text \<open>
  Lines 146-172. The handler for \<^verbatim>\<open>CalledProcessError\<close> formats the exception object,
  passes it to \<^verbatim>\<open>handle_run_error\<close> and re-raises it with a bare \<^verbatim>\<open>raise\<close>; an
  exception raised inside the handler replaces it. Every other exception is logged and
  re-raised. Without an exception the result is formatted and returned.
\<close>

definition run :: "env \<Rightarrow> string list \<Rightarrow> kwargs \<Rightarrow> (error + proc_result) \<times> event list" where
  "run e command_args kwargs =
     (let ((argv, kwargs4), evs) = run_prepare e command_args kwargs
      in ((case subprocess_run_check e argv kwargs4 of
             Inl (CalledProcessError cpe) \<Rightarrow>
               (case format_output cpe of
                  Inl x \<Rightarrow> Inl x
                | Inr cpe1 \<Rightarrow>
                    (case handle_run_error command_args cpe1 of
                       Inl x \<Rightarrow> Inl x
                     | Inr cpe2 \<Rightarrow> Inl (CalledProcessError cpe2)))
           | Inl x \<Rightarrow> Inl x
           | Inr result \<Rightarrow> format_output result),
          evs @ [EvRun argv kwargs4]))"

section \<open>background\<close>

text \<open>
  The names bound at module level of \<^verbatim>\<open>command.py\<close> (imports, the global \<^verbatim>\<open>log\<close>,
  the functions) and the names \<^verbatim>\<open>background\<close> assigns. Reading any other name that
  is not a builtin raises \<^verbatim>\<open>NameError\<close>.
\<close>

definition module_globals :: "string list" where
  "module_globals =
     [''glob'', ''os'', ''Queue'', ''shlex'', ''subprocess'', ''sys'', ''Thread'', ''sleep'',
      ''log'', ''run'', ''run_verbose'', ''background'', ''get_run_args'', ''format_output'',
      ''handle_run_error'', ''update_stderrout'', ''nice'', ''nice_args'', ''wait_child'',
      ''_init_log'', ''show_stderr'']"

definition background_locals :: "string list" where
  "background_locals =
     [''command_args'', ''kwargs'', ''kwargs_str'', ''key'', ''process'', ''ose'',
      ''program_file'', ''program'', ''first_chars'', ''e'']"

definition load_name :: "string list \<Rightarrow> string \<Rightarrow> error + unit" where
  "load_name locals name =
     (if name \<in> set locals \<or> name \<in> set module_globals then Inr ()
      else Inl (NameError name))"

text \<open>Python's \<^verbatim>\<open>p in s\<close> on strings: \<open>p\<close> occurs in \<open>s\<close> as a substring.\<close>

fun contains :: "string \<Rightarrow> string \<Rightarrow> bool" where
  "contains [] p = (p = [])"
| "contains (c # cs) p = (startswith (c # cs) p \<or> contains cs p)"

text \<open>
  Lines 255-257: a single argument with a space in it is split with \<^verbatim>\<open>shlex.split\<close>,
  which may raise \<^verbatim>\<open>ValueError\<close>.
\<close>

definition retokenize :: "env \<Rightarrow> string list \<Rightarrow> error + string list" where
  "retokenize e command_args =
     (case command_args of
        [a] \<Rightarrow> if CHR '' '' \<in> set a then shlex_split e a else Inr command_args
      | _ \<Rightarrow> Inr command_args)"

text \<open>
  Line 281, \<^verbatim>\<open>subprocess.Popen(command_args, shell=True, **kwargs)\<close>: a \<^verbatim>\<open>shell\<close>
  among \<^verbatim>\<open>kwargs\<close> gives the keyword twice, a \<^verbatim>\<open>TypeError\<close>.
\<close>

definition popen_shell :: "env \<Rightarrow> string list \<Rightarrow> kwargs \<Rightarrow> error + popen_obj" where
  "popen_shell e command_args kwargs =
     (if map_of kwargs ''shell'' \<noteq> None then Inl TypeError
      else popen e command_args ((''shell'', VBool True) # kwargs))"

text \<open>
  Lines 273-291, the statements of the \<^verbatim>\<open>OSError\<close> handler after its log lines.
  \<open>ose\<close> is the exception being handled, which a bare \<^verbatim>\<open>raise\<close> re-raises. After a
  successful second \<^verbatim>\<open>Popen\<close> the handler ends and so does the function, without a
  \<^verbatim>\<open>return\<close>: the call returns \<^verbatim>\<open>None\<close>.
\<close>

definition shebang_retry ::
  "env \<Rightarrow> string list \<Rightarrow> kwargs \<Rightarrow> string option \<Rightarrow> (error + popen_obj option) \<times> event list"
where
  "shebang_retry e command_args kwargs strerror =
     (let ose = OSError strerror in
      case strerror of
        None \<Rightarrow> (Inl ose, [])
      | Some s \<Rightarrow>
          if s = [] then (Inl ose, [])
          else if \<not> contains s ''Exec format error'' then (Inl ose, [])
          else
            (case command_args of
               [] \<Rightarrow> (Inl IndexError, [])
             | program_file # _ \<Rightarrow>
                 (case open_read2 e program_file of
                    Inl x \<Rightarrow> (Inl x, [EvOpen program_file])
                  | Inr first_chars \<Rightarrow>
                      if first_chars = ''#!'' then
                        (let evs = [EvOpen program_file,
                                    EvPopen command_args ((''shell'', VBool True) # kwargs)]
                         in case popen_shell e command_args kwargs of
                              Inl x \<Rightarrow> (Inl x, evs)
                            | Inr process \<Rightarrow> (Inr None, evs))
                      else (Inl ose, [EvOpen program_file]))))"

text \<open>
  Lines 268-291. The handler's first statement is
  \<^verbatim>\<open>log.debug(f'os error: command: {command_str}')\<close>: the f-string reads the name
  \<^verbatim>\<open>command_str\<close> before anything else happens.
\<close>

definition on_os_error ::
  "env \<Rightarrow> string list \<Rightarrow> kwargs \<Rightarrow> string option \<Rightarrow> (error + popen_obj option) \<times> event list"
where
  "on_os_error e command_args kwargs strerror =
     (case load_name background_locals ''command_str'' of
        Inl x \<Rightarrow> (Inl x, [])
      | Inr _ \<Rightarrow> shebang_retry e command_args kwargs strerror)"

text \<open>
  Lines 293-297: \<^verbatim>\<open>log.debug(f'command: {command_str}')\<close>, two more log lines and a
  bare \<^verbatim>\<open>raise\<close> of the exception \<open>exc\<close> being handled.
\<close>

definition on_exception :: "error \<Rightarrow> error + popen_obj option" where
  "on_exception exc =
     (case load_name background_locals ''command_str'' of
        Inl x \<Rightarrow> Inl x
      | Inr _ \<Rightarrow> Inl exc)"

text \<open>Lines 265-301: the \<^verbatim>\<open>try\<close> statement.\<close>

definition spawn_background ::
  "env \<Rightarrow> string list \<Rightarrow> kwargs \<Rightarrow> (error + popen_obj option) \<times> event list"
where
  "spawn_background e command_args kwargs =
     (case popen e command_args kwargs of
        Inr process \<Rightarrow> (Inr (Some process), [EvPopen command_args kwargs])
      | Inl (OSError strerror) \<Rightarrow>
          (let (r, evs) = on_os_error e command_args kwargs strerror
           in (r, EvPopen command_args kwargs # evs))
      | Inl exc \<Rightarrow> (on_exception exc, [EvPopen command_args kwargs]))"

definition background ::
  "env \<Rightarrow> string list \<Rightarrow> kwargs \<Rightarrow> (error + popen_obj option) \<times> event list"
where
  "background e command_args kwargs =
     (if command_args = [] then (Inl (ValueError ''missing command''), [])
      else
        (case retokenize e command_args of
           Inl x \<Rightarrow> (Inl x, [])
         | Inr command_args1 \<Rightarrow> spawn_background e command_args1 kwargs))"

section \<open>wait\_child\<close>

definition wait_child :: "env \<Rightarrow> pyobj \<Rightarrow> (error + unit) \<times> event list" where
  "wait_child e process =
     (case process of
        PopenObj p \<Rightarrow>
          ((case waitpid e (pid p) of Inl x \<Rightarrow> Inl x | Inr _ \<Rightarrow> Inr ()), [EvWaitpid (pid p)])
      | _ \<Rightarrow> (Inl (ValueError ''program must be an instance of subprocess.Popen''), []))"

section \<open>A tokenizer and environments for evaluation\<close>

text \<open>
  \<^verbatim>\<open>shlex.split(s)\<close> runs the lexer of \<^verbatim>\<open>shlex.py\<close> in POSIX mode with
  \<^verbatim>\<open>whitespace_split\<close> set and no comment characters. The lexer's \<^verbatim>\<open>state\<close> is a
  blank (between tokens), \<^verbatim>\<open>'a'\<close> (in a word), a quote character or the escape
  character; \<^verbatim>\<open>escapedstate\<close> is the state to return to after an escape.
\<close>

datatype lex_state = InBlank | InWord | InQuote char | InEscape char

definition shlex_whitespace :: "char set" where
  "shlex_whitespace = {CHR '' '', CHR 0x09, CHR 0x0D, CHR 0x0A}"

definition shlex_quotes :: "char set" where
  "shlex_quotes = {CHR 0x27, CHR 0x22}"

definition emit :: "bool \<Rightarrow> string \<Rightarrow> string list" where
  "emit quoted token = (if token = [] \<and> \<not> quoted then [] else [token])"

definition cons_token :: "string \<Rightarrow> error + string list \<Rightarrow> error + string list" where
  "cons_token t r = (case r of Inl x \<Rightarrow> Inl x | Inr ts \<Rightarrow> Inr (t # ts))"

fun shlex_lex ::
  "lex_state \<Rightarrow> lex_state \<Rightarrow> bool \<Rightarrow> string \<Rightarrow> string \<Rightarrow> error + string list"
where
  "shlex_lex st esc quoted token [] =
     (case st of
        InBlank \<Rightarrow> Inr (emit quoted token)
      | InWord \<Rightarrow> Inr (emit quoted token)
      | InQuote q \<Rightarrow> Inl (ValueError ''No closing quotation'')
      | InEscape b \<Rightarrow> Inl (ValueError ''No escaped character''))"
| "shlex_lex st esc quoted token (c # cs) =
     (case st of
        InBlank \<Rightarrow>
          if c \<in> shlex_whitespace then
            (if token \<noteq> [] \<or> quoted
             then cons_token token (shlex_lex InBlank InBlank False [] cs)
             else shlex_lex InBlank esc quoted token cs)
          else if c = CHR 0x5C then shlex_lex (InEscape c) InWord quoted token cs
          else if c \<in> shlex_quotes then shlex_lex (InQuote c) esc quoted token cs
          else shlex_lex InWord esc quoted [c] cs
      | InQuote q \<Rightarrow>
          if c = q then shlex_lex InWord esc True token cs
          else if c = CHR 0x5C \<and> q = CHR 0x22 then shlex_lex (InEscape c) (InQuote q) True token cs
          else shlex_lex (InQuote q) esc True (token @ [c]) cs
      | InEscape b \<Rightarrow>
          (case esc of
             InQuote q \<Rightarrow>
               if c \<noteq> b \<and> c \<noteq> q then shlex_lex esc esc quoted (token @ [b, c]) cs
               else shlex_lex esc esc quoted (token @ [c]) cs
           | _ \<Rightarrow> shlex_lex esc esc quoted (token @ [c]) cs)
      | InWord \<Rightarrow>
          if c \<in> shlex_whitespace then
            (if token \<noteq> [] \<or> quoted
             then cons_token token (shlex_lex InBlank InBlank False [] cs)
             else shlex_lex InBlank esc quoted token cs)
          else if c \<in> shlex_quotes then shlex_lex (InQuote c) esc quoted token cs
          else if c = CHR 0x5C then shlex_lex (InEscape c) InWord quoted token cs
          else shlex_lex InWord esc quoted (token @ [c]) cs)"

definition posix_split :: "string \<Rightarrow> error + string list" where
  "posix_split s = shlex_lex InBlank InBlank False [] s"

text \<open>
  An environment with an empty directory, in which every command exits 0 with empty
  output, every \<^verbatim>\<open>Popen\<close> succeeds and every file starts with a shebang.
\<close>

definition env0 :: env where
  "env0 =
     \<lparr>glob = (\<lambda>pattern. []),
      spawn_wait = (\<lambda>argv kw. Inr \<lparr>args = argv, returncode = 0, stdout = Some (Bytes []),
                                   stderr = Some (Bytes []), stderrout = None\<rparr>),
      popen = (\<lambda>argv kw. Inr \<lparr>popen_args = argv, pid = 4242\<rparr>),
      open_read2 = (\<lambda>path. Inr ''#!''),
      waitpid = (\<lambda>p. Inr ()),
      shlex_split = posix_split\<rparr>"

text \<open>The same with a directory in which every pattern matches the given files.\<close>

definition env_files :: "string list \<Rightarrow> env" where
  "env_files files = env0\<lparr>glob := (\<lambda>pattern. files)\<rparr>"

text \<open>A process that exits with \<open>rc\<close> leaving \<open>out\<close> on stdout and \<open>err\<close> on stderr.\<close>

definition env_exit :: "int \<Rightarrow> bytes \<Rightarrow> bytes \<Rightarrow> env" where
  "env_exit rc out err =
     env0\<lparr>spawn_wait := (\<lambda>argv kw. Inr \<lparr>args = argv, returncode = rc, stdout = Some (Bytes out),
                                         stderr = Some (Bytes err), stderrout = None\<rparr>)\<rparr>"

text \<open>
  A kernel that refuses to execute any file directly, \<^verbatim>\<open>OSError(8, 'Exec format error')\<close>,
  while a shell runs it.
\<close>

definition env_noexec :: env where
  "env_noexec =
     env0\<lparr>popen := (\<lambda>argv kw.
             if map_of kw ''shell'' = Some (VBool True) then Inr \<lparr>popen_args = argv, pid = 4242\<rparr>
             else Inl (OSError (Some ''Exec format error'')))\<rparr>"

section \<open>Notions the properties are stated with\<close>

text \<open>The final argument list of \<^verbatim>\<open>get_run_args\<close> and the patterns it globbed.\<close>

definition final_args :: "env \<Rightarrow> string list \<Rightarrow> kwargs \<Rightarrow> string list" where
  "final_args e command_args kwargs = fst (fst (get_run_args e command_args kwargs))"

definition glob_calls :: "env \<Rightarrow> string list \<Rightarrow> kwargs \<Rightarrow> event list" where
  "glob_calls e command_args kwargs = snd (get_run_args e command_args kwargs)"

text \<open>The keyword options that \<^verbatim>\<open>run\<close> passes to \<^verbatim>\<open>subprocess.run\<close>.\<close>

definition run_kwargs :: "env \<Rightarrow> string list \<Rightarrow> kwargs \<Rightarrow> kwargs" where
  "run_kwargs e command_args kwargs = snd (fst (run_prepare e command_args kwargs))"

text \<open>Globbing is on: the option \<^verbatim>\<open>glob\<close> is absent (the default) or true.\<close>

definition glob_enabled :: "kwargs \<Rightarrow> bool" where
  "glob_enabled kwargs =
     (case map_of kwargs ''glob'' of None \<Rightarrow> True | Some v \<Rightarrow> truthy v)"

text \<open>
  What the operating system reports for the process that \<^verbatim>\<open>run\<close> starts: the
  completed process with its exit code and captured streams, or a fault.
\<close>

definition process_outcome :: "env \<Rightarrow> string list \<Rightarrow> kwargs \<Rightarrow> error + proc_result" where
  "process_outcome e command_args kwargs =
     (let ((argv, kwargs4), evs) = run_prepare e command_args kwargs
      in subprocess_run e argv kwargs4)"

text \<open>A stream value that decodes: text already, or bytes that are valid UTF-8.\<close>

definition decodable :: "outval option \<Rightarrow> bool" where
  "decodable v =
     (case v of
        None \<Rightarrow> True
      | Some (Str s) \<Rightarrow> True
      | Some (Bytes b) \<Rightarrow> utf8_decode b \<noteq> None)"

text \<open>The trimmed text of a stream value.\<close>

definition trimmed :: "outval \<Rightarrow> pystr" where
  "trimmed v =
     (case v of
        Str s \<Rightarrow> strip s
      | Bytes b \<Rightarrow> (case utf8_decode b of None \<Rightarrow> [] | Some s \<Rightarrow> strip s))"

text \<open>
  The combined output as the specification words it: trimmed stderr followed by
  trimmed stdout when both are present, the one that is present otherwise, nothing
  when both are absent.
\<close>

definition combined :: "outval option \<Rightarrow> outval option \<Rightarrow> pystr option" where
  "combined err out =
     (case (err, out) of
        (Some a, Some b) \<Rightarrow> Some (trimmed a @ trimmed b)
      | (Some a, None) \<Rightarrow> Some (trimmed a)
      | (None, Some b) \<Rightarrow> Some (trimmed b)
      | (None, None) \<Rightarrow> None)"

text \<open>A result object after formatting: both streams trimmed text, the combination set.\<close>

definition formatted :: "proc_result \<Rightarrow> proc_result" where
  "formatted r =
     r\<lparr>stdout := map_option (\<lambda>v. Str (trimmed v)) (stdout r),
       stderr := map_option (\<lambda>v. Str (trimmed v)) (stderr r),
       stderrout := combined (stderr r) (stdout r)\<rparr>"

text \<open>Python's \<^verbatim>\<open>isinstance(process, subprocess.Popen)\<close>.\<close>

definition is_popen :: "pyobj \<Rightarrow> bool" where
  "is_popen obj = (case obj of PopenObj p \<Rightarrow> True | _ \<Rightarrow> False)"

section \<open>Properties of format\_output\<close>

lemma dropWhile_fix: "xs = [] \<or> \<not> P (hd xs) \<Longrightarrow> dropWhile P xs = xs"
  by (cases xs) auto

lemma hd_dropWhile_rev: 
  "rev (dropWhile P (rev t)) \<noteq> [] \<Longrightarrow> hd (rev (dropWhile P (rev t))) = hd t"
proof (induction t rule: rev_induct)
  case Nil then show ?case by simp
next
  case (snoc x xs)
  then show ?case by (cases xs) (auto split: if_splits)
qed

lemma strip_idem: "strip (strip s) = strip s"
proof -
  define t where "t = dropWhile isspace s"
  define u where "u = rev (dropWhile isspace (rev t))"
  have "u = [] \<or> \<not> isspace (hd u)"
  proof (cases "u = []")
    case True then show ?thesis by simp
  next
    case False
    then have h: "hd u = hd t" unfolding u_def by (rule hd_dropWhile_rev)
    from False have "t \<noteq> []" unfolding u_def by auto
    then have "\<not> isspace (hd t)" unfolding t_def by (rule hd_dropWhile)
    with h show ?thesis by simp
  qed
  then have 1: "dropWhile isspace u = u" by (rule dropWhile_fix)
  have 2: "dropWhile isspace (rev u) = rev u" by (simp add: u_def)
  have "strip s = u" by (simp add: strip_def u_def t_def)
  moreover have "strip u = u" by (simp add: strip_def 1 2)
  ultimately show ?thesis by simp
qed

lemma strip_Nil: "strip [] = []"
  by (simp add: strip_def)

lemma decode_strip_trimmed:
  "decodable (Some v) \<Longrightarrow> decode_strip v = Inr (trimmed v)"
  by (auto simp: decodable_def decode_strip_def trimmed_def split: outval.splits option.splits)

lemma decode_strip_undecodable:
  "\<not> decodable (Some v) \<Longrightarrow> decode_strip v = Inl UnicodeDecodeError"
  by (auto simp: decodable_def decode_strip_def split: outval.splits option.splits)

lemma format_output_decodable:
  assumes "decodable (stderr r)" and "decodable (stdout r)"
  shows "format_output r = Inr (formatted r)"
proof (cases "stderr r")
  case None
  show ?thesis
  proof (cases "stdout r")
    case n: None
    with None show ?thesis
      by (simp add: format_output_def stderr_block_def stdout_block_def formatted_def
          combined_def)
  next
    case (Some b)
    with None assms show ?thesis
      by (simp add: format_output_def stderr_block_def stdout_block_def formatted_def
          combined_def decode_strip_trimmed)
  qed
next
  case (Some a)
  show ?thesis
  proof (cases "stdout r")
    case None
    with Some assms show ?thesis
      by (simp add: format_output_def stderr_block_def stdout_block_def formatted_def
          combined_def decode_strip_trimmed)
  next
    case s: (Some b)
    with Some assms show ?thesis
      by (simp add: format_output_def stderr_block_def stdout_block_def formatted_def
          combined_def decode_strip_trimmed)
  qed
qed

lemma format_output_undecodable:
  assumes "\<not> decodable (stderr r) \<or> \<not> decodable (stdout r)"
  shows "format_output r = Inl UnicodeDecodeError"
proof (cases "decodable (stderr r)")
  case False
  then obtain a where "stderr r = Some a" by (auto simp: decodable_def split: option.splits)
  with False show ?thesis
    by (simp add: format_output_def stderr_block_def decode_strip_undecodable)
next
  case True
  with assms have nd: "\<not> decodable (stdout r)" by simp
  then obtain b where b: "stdout r = Some b" by (auto simp: decodable_def split: option.splits)
  show ?thesis
  proof (cases "stderr r")
    case None
    with b nd show ?thesis
      by (simp add: format_output_def stderr_block_def stdout_block_def decode_strip_undecodable)
  next
    case (Some a)
    with b nd True show ?thesis
      by (simp add: format_output_def stderr_block_def stdout_block_def
          decode_strip_undecodable decode_strip_trimmed)
  qed
qed

lemma update_stderrout_eq: "update_stderrout r = format_output r"
  by (simp add: update_stderrout_def format_output_def)

lemma trimmed_Str_trimmed: "trimmed (Str (trimmed v)) = trimmed v"
  by (simp add: trimmed_def strip_idem strip_Nil split: outval.splits option.splits)

lemma decodable_formatted:
  "decodable (stderr (formatted r))" "decodable (stdout (formatted r))"
  by (simp_all add: formatted_def decodable_def split: option.splits)

lemma formatted_idem: "formatted (formatted r) = formatted r"
  by (cases "stderr r"; cases "stdout r")
     (simp_all add: formatted_def combined_def trimmed_Str_trimmed)

lemma format_output_formatted: "format_output (formatted r) = Inr (formatted r)"
  by (simp add: format_output_decodable decodable_formatted formatted_idem)

lemmas eval_defs =
  run_def run_prepare_def get_run_args_def env_exit_def env0_def take_interactive_def
  globbing_of_def default_pipe_def subprocess_run_def subprocess_run_check_def
  format_output_def
  stderr_block_def stdout_block_def decode_strip_def strip_def isspace_def has_wildcard_def
  encased_str_def startswith_def endswith_def process_outcome_def handle_run_error_def
  update_stderrout_def is_cont_def cont_bits_def second_ok3_def second_ok4_def Let_def

text \<open>
  Claim C9. \<^verbatim>\<open>format_output\<close> is idempotent: for every result object, formatting the
  formatted object again gives the same object (the same stdout, stderr and stderrout),
  and an object whose first formatting raises has no second one.
\<close>
theorem format_output_idempotent:
  "(case format_output r of Inl x \<Rightarrow> Inl x | Inr r1 \<Rightarrow> format_output r1) = format_output r"
proof (cases "decodable (stderr r) \<and> decodable (stdout r)")
  case True
  then show ?thesis by (simp add: format_output_decodable format_output_formatted)
next
  case False
  then show ?thesis by (simp add: format_output_undecodable)
qed

text \<open>Claim C9 at a result with captured bytes \<^verbatim>\<open>b'hi\n'\<close> on stdout.\<close>
theorem format_output_idempotent_witness:
  "format_output \<lparr>args = [''echo''], returncode = 0, stdout = Some (Bytes [0x68, 0x69, 0x0A]),
       stderr = None, stderrout = None\<rparr> =
     Inr \<lparr>args = [''echo''], returncode = 0, stdout = Some (Str [0x68, 0x69]),
          stderr = None, stderrout = Some [0x68, 0x69]\<rparr>
   \<and> format_output \<lparr>args = [''echo''], returncode = 0, stdout = Some (Str [0x68, 0x69]),
          stderr = None, stderrout = Some [0x68, 0x69]\<rparr> =
     Inr \<lparr>args = [''echo''], returncode = 0, stdout = Some (Str [0x68, 0x69]),
          stderr = None, stderrout = Some [0x68, 0x69]\<rparr>"
proof -
  have 1: "format_output \<lparr>args = [''echo''], returncode = 0,
       stdout = Some (Bytes [0x68, 0x69, 0x0A]), stderr = None, stderrout = None\<rparr> =
     Inr \<lparr>args = [''echo''], returncode = 0, stdout = Some (Str [0x68, 0x69]),
          stderr = None, stderrout = Some [0x68, 0x69]\<rparr>"
    by (simp add: eval_defs)
  show ?thesis
    using format_output_idempotent [of "\<lparr>args = [''echo''], returncode = 0,
       stdout = Some (Bytes [0x68, 0x69, 0x0A]), stderr = None, stderrout = None\<rparr>"] 1
    by simp
qed

section \<open>Properties of get\_run\_args\<close>

lemma expand_args_acc:
  "expand_args e g (out, evs) xs =
     (out @ fst (expand_args e g ([], []) xs), evs @ snd (expand_args e g ([], []) xs))"
proof (induction xs arbitrary: out evs)
  case Nil
  show ?case by simp
next
  case (Cons a xs)
  show ?case
    by (simp add: Cons.IH [of "out @ glob e a" "evs @ [EvGlob a]"]
        Cons.IH [of "out @ [a]" evs] Cons.IH [of "glob e a" "[EvGlob a]"]
        Cons.IH [of "[a]" "[]"])
qed

lemma expand_args_append:
  "expand_args e g acc (xs @ ys) = expand_args e g (expand_args e g acc xs) ys"
proof (induction xs arbitrary: acc)
  case Nil
  show ?case by simp
next
  case (Cons a xs)
  obtain out evs where "acc = (out, evs)" by (cases acc)
  then show ?case by (simp add: Cons.IH)
qed

lemma expand_args_split:
  "expand_args e g ([], []) (pre @ arg # post) =
     (fst (expand_args e g ([], []) pre) @ fst (expand_args e g ([], []) [arg])
        @ fst (expand_args e g ([], []) post),
      snd (expand_args e g ([], []) pre) @ snd (expand_args e g ([], []) [arg])
        @ snd (expand_args e g ([], []) post))"
proof -
  obtain o1 e1 where p: "expand_args e g ([], []) pre = (o1, e1)"
    by (cases "expand_args e g ([], []) pre")
  obtain o2 e2 where a: "expand_args e g ([], []) [arg] = (o2, e2)"
    by (cases "expand_args e g ([], []) [arg]")
  have "expand_args e g ([], []) (pre @ [arg] @ post)
        = expand_args e g (expand_args e g (o1, e1) [arg]) post"
    by (simp only: expand_args_append p)
  also have "expand_args e g (o1, e1) [arg] = (o1 @ o2, e1 @ e2)"
    by (simp only: expand_args_acc [of e g o1 e1 "[arg]"] a fst_conv snd_conv)
  also have "expand_args e g (o1 @ o2, e1 @ e2) post =
     ((o1 @ o2) @ fst (expand_args e g ([], []) post),
      (e1 @ e2) @ snd (expand_args e g ([], []) post))"
    by (rule expand_args_acc)
  finally have "expand_args e g ([], []) (pre @ [arg] @ post) =
     ((o1 @ o2) @ fst (expand_args e g ([], []) post),
      (e1 @ e2) @ snd (expand_args e g ([], []) post))" .
  moreover have "pre @ arg # post = pre @ [arg] @ post" by simp
  ultimately show ?thesis by (simp only: p a fst_conv snd_conv append_assoc)
qed

lemma final_args_split:
  "final_args e (pre @ arg # post) kw =
     final_args e pre kw @ final_args e [arg] kw @ final_args e post kw"
  by (simp add: final_args_def get_run_args_def Let_def split_beta expand_args_split)

lemma glob_calls_split:
  "glob_calls e (pre @ arg # post) kw =
     glob_calls e pre kw @ glob_calls e [arg] kw @ glob_calls e post kw"
  by (simp add: glob_calls_def get_run_args_def Let_def split_beta expand_args_split)

lemma expand_args_glob_events:
  "EvGlob a \<in> set (snd (expand_args e g ([], []) xs)) \<Longrightarrow>
     a \<in> set xs \<and> has_wildcard a \<and> \<not> encased_str a \<and> truthy g"
proof (induction xs)
  case Nil
  then show ?case by simp
next
  case (Cons x xs)
  have "expand_args e g ([], []) (x # xs) =
     (fst (expand_args e g ([], []) [x]) @ fst (expand_args e g ([], []) xs),
      snd (expand_args e g ([], []) [x]) @ snd (expand_args e g ([], []) xs))"
    using expand_args_split [of e g "[]" x xs] by simp
  with Cons.prems have
    "EvGlob a \<in> set (snd (expand_args e g ([], []) [x]))
     \<or> EvGlob a \<in> set (snd (expand_args e g ([], []) xs))" by simp
  then show ?case
  proof
    assume "EvGlob a \<in> set (snd (expand_args e g ([], []) [x]))"
    then show ?thesis by (auto split: if_splits)
  next
    assume "EvGlob a \<in> set (snd (expand_args e g ([], []) xs))"
    with Cons.IH show ?thesis by simp
  qed
qed

lemma glob_calls_only_unquoted:
  "EvGlob a \<in> set (glob_calls e cmd kw) \<Longrightarrow> has_wildcard a \<and> \<not> encased_str a"
  by (auto simp: glob_calls_def get_run_args_def Let_def split_beta
      dest: expand_args_glob_events)

lemma final_args_encased: "encased_str arg \<Longrightarrow> final_args e [arg] kw = [arg]"
  by (simp add: final_args_def get_run_args_def Let_def)

lemma glob_calls_encased: "encased_str arg \<Longrightarrow> glob_calls e [arg] kw = []"
  by (simp add: glob_calls_def get_run_args_def Let_def)

lemma map_of_take_interactive_glob:
  "map_of (take_interactive kw) ''glob'' = map_of kw ''glob''"
  by (simp add: take_interactive_def update_conv' delete_conv' split: option.splits)

lemma glob_enabled_globbing: "truthy (globbing_of (take_interactive kw)) = glob_enabled kw"
  by (simp add: globbing_of_def glob_enabled_def map_of_take_interactive_glob
      split: option.splits)

lemmas arg_defs =
  final_args_def glob_calls_def get_run_args_def take_interactive_def globbing_of_def
  has_wildcard_def encased_str_def startswith_def endswith_def env_files_def env0_def
  glob_enabled_def run_kwargs_def run_prepare_def default_pipe_def run_def
  subprocess_run_def subprocess_run_check_def Let_def

text \<open>
  Claim C5. An argument that starts and ends with matching quotes and contains
  \<^verbatim>\<open>*\<close> or \<^verbatim>\<open>?\<close> is never expanded, whatever the options say about \<^verbatim>\<open>glob\<close>:
  it stands unchanged in the final argument list between what the arguments before and
  after it produce, and \<^verbatim>\<open>glob\<close> is not called on it.
\<close>
theorem quoted_wildcard_never_globbed:
  assumes "encased_str arg" and "has_wildcard arg"
  shows "final_args e (pre @ arg # post) kwargs =
           final_args e pre kwargs @ [arg] @ final_args e post kwargs
         \<and> glob_calls e (pre @ arg # post) kwargs =
           glob_calls e pre kwargs @ glob_calls e post kwargs
         \<and> EvGlob arg \<notin> set (glob_calls e (pre @ arg # post) kwargs)"
proof -
  have "EvGlob arg \<notin> set (glob_calls e (pre @ arg # post) kwargs)"
    using assms(1) glob_calls_only_unquoted by blast
  with assms(1) show ?thesis
    by (simp add: final_args_split [of e pre arg post]
        glob_calls_split [of e pre arg post] final_args_encased glob_calls_encased)
qed

text \<open>
  Claim C5 at \<^verbatim>\<open>echo "*.txt"\<close> with \<^verbatim>\<open>glob=True\<close> in a directory where every pattern
  matches two files.
\<close>
theorem quoted_wildcard_never_globbed_witness:
  "encased_str ([CHR 0x22] @ ''*.txt'' @ [CHR 0x22])
   \<and> has_wildcard ([CHR 0x22] @ ''*.txt'' @ [CHR 0x22])
   \<and> final_args (env_files [''a.txt'', ''b.txt'']) [''echo'', [CHR 0x22] @ ''*.txt'' @ [CHR 0x22]]
         [(''glob'', VBool True)] =
       [''echo'', [CHR 0x22] @ ''*.txt'' @ [CHR 0x22]]
   \<and> glob_calls (env_files [''a.txt'', ''b.txt'']) [''echo'', [CHR 0x22] @ ''*.txt'' @ [CHR 0x22]]
         [(''glob'', VBool True)] = []"
proof -
  have 1: "encased_str ([CHR 0x22] @ ''*.txt'' @ [CHR 0x22])" by (simp add: arg_defs)
  have 2: "has_wildcard ([CHR 0x22] @ ''*.txt'' @ [CHR 0x22])" by (simp add: arg_defs)
  have 3: "final_args (env_files [''a.txt'', ''b.txt'']) [''echo''] [(''glob'', VBool True)] =
       [''echo'']" by (simp add: arg_defs)
  have 4: "glob_calls (env_files [''a.txt'', ''b.txt'']) [''echo''] [(''glob'', VBool True)] = []"
    by (simp add: arg_defs)
  have 5: "final_args (env_files [''a.txt'', ''b.txt'']) [] [(''glob'', VBool True)] = []"
    by (simp add: arg_defs)
  have 6: "glob_calls (env_files [''a.txt'', ''b.txt'']) [] [(''glob'', VBool True)] = []"
    by (simp add: arg_defs)
  show ?thesis
    using quoted_wildcard_never_globbed [OF 1 2, of "env_files [''a.txt'', ''b.txt'']"
        "[''echo'']" "[]" "[(''glob'', VBool True)]"] 1 2 3 4 5 6
    by simp
qed

text \<open>
  Claim C6. With globbing on, an argument with a wildcard that is not quote-encased and
  matches no file contributes nothing to the final argument list: it is dropped.
\<close>
theorem unmatched_wildcard_dropped:
  assumes "has_wildcard arg" and "\<not> encased_str arg" and "glob_enabled kwargs"
    and "glob e arg = []"
  shows "final_args e (pre @ arg # post) kwargs =
           final_args e pre kwargs @ final_args e post kwargs"
proof -
  have "final_args e [arg] kwargs = []"
    using assms
    by (simp add: final_args_def get_run_args_def Let_def glob_enabled_globbing)
  then show ?thesis by (simp add: final_args_split [of e pre arg post])
qed

text \<open>Claim C6 at \<^verbatim>\<open>ls *.log notes\<close> in an empty directory.\<close>
theorem unmatched_wildcard_dropped_witness:
  "has_wildcard ''*.log'' \<and> \<not> encased_str ''*.log'' \<and> glob_enabled []
   \<and> glob env0 ''*.log'' = []
   \<and> final_args env0 [''ls'', ''*.log'', ''notes''] [] = [''ls'', ''notes'']"
proof -
  have 1: "has_wildcard ''*.log''" by (simp add: arg_defs)
  have 2: "\<not> encased_str ''*.log''" by (simp add: arg_defs)
  have 3: "glob_enabled []" by (simp add: arg_defs)
  have 4: "glob env0 ''*.log'' = []" by (simp add: arg_defs)
  have 5: "final_args env0 [''ls''] [] = [''ls'']" by (simp add: arg_defs)
  have 6: "final_args env0 [''notes''] [] = [''notes'']" by (simp add: arg_defs)
  show ?thesis
    using unmatched_wildcard_dropped [OF 1 2 3 4, of "[''ls'']" "[''notes'']"] 1 2 3 4 5 6
    by simp
qed

section \<open>Properties of run\<close>

lemma run_prepare_args:
  "fst (fst (run_prepare e cmd kw)) = final_args e cmd kw"
  "snd (run_prepare e cmd kw) = glob_calls e cmd kw"
  by (simp_all add: run_prepare_def final_args_def glob_calls_def Let_def split_beta)

lemma run_spawn_event:
  "snd (run e cmd kw) = glob_calls e cmd kw @ [EvRun (final_args e cmd kw) (run_kwargs e cmd kw)]"
  by (simp add: run_def Let_def split_beta run_prepare_args run_kwargs_def)

lemma run_exit_zero:
  assumes "process_outcome e cmd kw = Inr cp" and "returncode cp = 0"
  shows "fst (run e cmd kw) = format_output cp"
  using assms
  by (simp add: run_def process_outcome_def subprocess_run_check_def Let_def split_beta)

lemma run_exit_nonzero:
  assumes "process_outcome e cmd kw = Inr cp" and "returncode cp \<noteq> 0"
  shows "fst (run e cmd kw) =
     (case format_output cp of
        Inl x \<Rightarrow> Inl x
      | Inr cpe1 \<Rightarrow>
          (case format_output cpe1 of
             Inl x \<Rightarrow> Inl x
           | Inr cpe2 \<Rightarrow> Inl (CalledProcessError cpe2)))"
  using assms
  by (simp add: run_def process_outcome_def subprocess_run_check_def Let_def split_beta
      handle_run_error_def update_stderrout_eq cong: sum.case_cong)

text \<open>
  Claim C10. A quote-encased argument reaches the final argument list verbatim, quotes
  included, and that list is the one \<^verbatim>\<open>run\<close> hands to \<^verbatim>\<open>subprocess.run\<close>.
\<close>
theorem quoted_argument_kept_verbatim:
  assumes "encased_str arg"
  shows "final_args e (pre @ arg # post) kwargs =
           final_args e pre kwargs @ [arg] @ final_args e post kwargs
         \<and> last (snd (run e (pre @ arg # post) kwargs)) =
           EvRun (final_args e pre kwargs @ [arg] @ final_args e post kwargs)
             (run_kwargs e (pre @ arg # post) kwargs)"
proof -
  have "final_args e (pre @ arg # post) kwargs =
          final_args e pre kwargs @ [arg] @ final_args e post kwargs"
    using assms by (simp add: final_args_split [of e pre arg post] final_args_encased)
  then show ?thesis by (simp add: run_spawn_event)
qed

text \<open>Claim C10 at \<^verbatim>\<open>echo 'a b' c\<close>.\<close>
theorem quoted_argument_kept_verbatim_witness:
  "encased_str ([CHR 0x27] @ ''a b'' @ [CHR 0x27])
   \<and> final_args env0 [''echo'', [CHR 0x27] @ ''a b'' @ [CHR 0x27], ''c''] [] =
       [''echo'', [CHR 0x27] @ ''a b'' @ [CHR 0x27], ''c'']
   \<and> last (snd (run env0 [''echo'', [CHR 0x27] @ ''a b'' @ [CHR 0x27], ''c''] [])) =
       EvRun [''echo'', [CHR 0x27] @ ''a b'' @ [CHR 0x27], ''c'']
         [(''stdout'', VPipe), (''stderr'', VPipe)]"
proof -
  have 1: "encased_str ([CHR 0x27] @ ''a b'' @ [CHR 0x27])" by (simp add: arg_defs)
  have 2: "final_args env0 [''echo''] [] = [''echo'']" by (simp add: arg_defs)
  have 3: "final_args env0 [''c''] [] = [''c'']" by (simp add: arg_defs)
  have 4: "run_kwargs env0 [''echo'', [CHR 0x27] @ ''a b'' @ [CHR 0x27], ''c''] [] =
       [(''stdout'', VPipe), (''stderr'', VPipe)]" by (simp add: arg_defs)
  show ?thesis
    using quoted_argument_kept_verbatim [OF 1, of env0 "[''echo'']" "[''c'']" "[]"] 1 2 3 4
    by simp
qed

text \<open>
  Claim C3 as stated fails: a process that exits 0 after writing the byte \<^verbatim>\<open>0xFF\<close>
  to stdout makes \<^verbatim>\<open>run\<close> raise \<^verbatim>\<open>UnicodeDecodeError\<close> instead of returning a result.
\<close>
theorem run_exit_zero_undecodable:
  "process_outcome (env_exit 0 [0xFF] []) [''cat'', ''blob''] [] =
     Inr \<lparr>args = [''cat'', ''blob''], returncode = 0, stdout = Some (Bytes [0xFF]),
          stderr = Some (Bytes []), stderrout = None\<rparr>
   \<and> fst (run (env_exit 0 [0xFF] []) [''cat'', ''blob''] []) = Inl UnicodeDecodeError"
  by (simp add: eval_defs)

text \<open>
  Claim C3, amended. When the command exits with status 0 and each captured stream is
  absent, text already, or valid UTF-8, \<^verbatim>\<open>run\<close> returns the formatted result, whose
  \<^verbatim>\<open>stderrout\<close> is the trimmed stderr followed by the trimmed stdout when both are
  present, the trimmed one that is present otherwise, and \<^verbatim>\<open>None\<close> when both are absent.
\<close>
theorem run_success_combined_output:
  assumes "process_outcome e cmd kw = Inr cp" and "returncode cp = 0"
    and "decodable (stdout cp)" and "decodable (stderr cp)"
  shows "fst (run e cmd kw) = Inr (formatted cp)
         \<and> stderrout (formatted cp) = combined (stderr cp) (stdout cp)"
  using assms
  by (simp add: run_exit_zero format_output_decodable formatted_def)

text \<open>
  Claim C3, amended, at a process that exits 0 with \<^verbatim>\<open>b' a'\<close> on stdout and
  \<^verbatim>\<open>b'b\n'\<close> on stderr.
\<close>
theorem run_success_combined_output_witness:
  "process_outcome (env_exit 0 [0x20, 0x61] [0x62, 0x0A]) [''sh'', ''demo''] [] =
     Inr \<lparr>args = [''sh'', ''demo''], returncode = 0, stdout = Some (Bytes [0x20, 0x61]),
          stderr = Some (Bytes [0x62, 0x0A]), stderrout = None\<rparr>
   \<and> fst (run (env_exit 0 [0x20, 0x61] [0x62, 0x0A]) [''sh'', ''demo''] []) =
     Inr \<lparr>args = [''sh'', ''demo''], returncode = 0, stdout = Some (Str [0x61]),
          stderr = Some (Str [0x62]), stderrout = Some [0x62, 0x61]\<rparr>"
proof -
  let ?cp = "\<lparr>args = [''sh'', ''demo''], returncode = 0, stdout = Some (Bytes [0x20, 0x61]),
          stderr = Some (Bytes [0x62, 0x0A]), stderrout = None\<rparr>"
  have 1: "process_outcome (env_exit 0 [0x20, 0x61] [0x62, 0x0A]) [''sh'', ''demo''] [] = Inr ?cp"
    by (simp add: eval_defs)
  have 2: "returncode ?cp = 0" by simp
  have 3: "decodable (stdout ?cp)" by (simp add: decodable_def)
  have 4: "decodable (stderr ?cp)" by (simp add: decodable_def)
  have 5: "formatted ?cp = \<lparr>args = [''sh'', ''demo''], returncode = 0, stdout = Some (Str [0x61]),
          stderr = Some (Str [0x62]), stderrout = Some [0x62, 0x61]\<rparr>"
    by (simp add: formatted_def combined_def trimmed_def strip_def isspace_def)
  show ?thesis
    using run_success_combined_output [OF 1 2 3 4] 1 5 by simp
qed

text \<open>
  Claim C4 as stated fails: a process that exits 1 after writing the byte \<^verbatim>\<open>0xFF\<close>
  to stderr makes \<^verbatim>\<open>run\<close> raise \<^verbatim>\<open>UnicodeDecodeError\<close>, raised by
  \<^verbatim>\<open>format_output\<close> inside the handler, and not the \<^verbatim>\<open>CalledProcessError\<close>.
\<close>
theorem run_exit_one_undecodable:
  "process_outcome (env_exit 1 [] [0xFF]) [''cat'', ''blob''] [] =
     Inr \<lparr>args = [''cat'', ''blob''], returncode = 1, stdout = Some (Bytes []),
          stderr = Some (Bytes [0xFF]), stderrout = None\<rparr>
   \<and> fst (run (env_exit 1 [] [0xFF]) [''cat'', ''blob''] []) = Inl UnicodeDecodeError"
  by (simp add: eval_defs)

text \<open>
  Claim C4, amended. When the command exits with a non-zero status and each captured
  stream is absent, text already, or valid UTF-8, \<^verbatim>\<open>run\<close> raises
  \<^verbatim>\<open>CalledProcessError\<close> with the exit code the process reported, the decoded and
  trimmed stdout and stderr, and their combination as \<^verbatim>\<open>stderrout\<close>.
\<close>
theorem run_failure_raises:
  assumes "process_outcome e cmd kw = Inr cp" and "returncode cp \<noteq> 0"
    and "decodable (stdout cp)" and "decodable (stderr cp)"
  shows "fst (run e cmd kw) = Inl (CalledProcessError (formatted cp))
         \<and> returncode (formatted cp) = returncode cp
         \<and> stderrout (formatted cp) = combined (stderr cp) (stdout cp)"
proof -
  have "fst (run e cmd kw) = Inl (CalledProcessError (formatted cp))"
    using assms
    by (simp add: run_exit_nonzero format_output_decodable format_output_formatted)
  then show ?thesis by (simp add: formatted_def)
qed

text \<open>
  Claim C4, amended, at a process that exits 2 with \<^verbatim>\<open>b'o\n'\<close> on stdout and
  \<^verbatim>\<open>b'e\n'\<close> on stderr.
\<close>
theorem run_failure_raises_witness:
  "process_outcome (env_exit 2 [0x6F, 0x0A] [0x65, 0x0A]) [''sh'', ''demo''] [] =
     Inr \<lparr>args = [''sh'', ''demo''], returncode = 2, stdout = Some (Bytes [0x6F, 0x0A]),
          stderr = Some (Bytes [0x65, 0x0A]), stderrout = None\<rparr>
   \<and> fst (run (env_exit 2 [0x6F, 0x0A] [0x65, 0x0A]) [''sh'', ''demo''] []) =
     Inl (CalledProcessError
       \<lparr>args = [''sh'', ''demo''], returncode = 2, stdout = Some (Str [0x6F]),
          stderr = Some (Str [0x65]), stderrout = Some [0x65, 0x6F]\<rparr>)"
proof -
  let ?cp = "\<lparr>args = [''sh'', ''demo''], returncode = 2, stdout = Some (Bytes [0x6F, 0x0A]),
          stderr = Some (Bytes [0x65, 0x0A]), stderrout = None\<rparr>"
  have 1: "process_outcome (env_exit 2 [0x6F, 0x0A] [0x65, 0x0A]) [''sh'', ''demo''] [] = Inr ?cp"
    by (simp add: eval_defs)
  have 2: "returncode ?cp \<noteq> 0" by simp
  have 3: "decodable (stdout ?cp)" by (simp add: decodable_def)
  have 4: "decodable (stderr ?cp)" by (simp add: decodable_def)
  have 5: "formatted ?cp = \<lparr>args = [''sh'', ''demo''], returncode = 2, stdout = Some (Str [0x6F]),
          stderr = Some (Str [0x65]), stderrout = Some [0x65, 0x6F]\<rparr>"
    by (simp add: formatted_def combined_def trimmed_def strip_def isspace_def)
  show ?thesis
    using run_failure_raises [OF 1 2 3 4] 1 5 by simp
qed

lemma run_result_is_text:
  assumes "fst (run e cmd kw) = Inr r"
  shows "stdout r \<noteq> Some (Bytes b) \<and> stderr r \<noteq> Some (Bytes b)"
proof -
  obtain cp where cp: "process_outcome e cmd kw = Inr cp" "returncode cp = 0"
    using assms
    by (auto simp: run_def process_outcome_def subprocess_run_check_def Let_def split_beta
        split: sum.splits error.splits if_splits)
  then have f: "format_output cp = Inr r" using assms by (simp add: run_exit_zero)
  have "decodable (stderr cp) \<and> decodable (stdout cp)"
    using f format_output_undecodable [of cp] by auto
  then have "r = formatted cp" using f by (simp add: format_output_decodable)
  then show ?thesis by (simp add: formatted_def)
qed

text \<open>
  Claim C1 fails on the code. With \<^verbatim>\<open>output_bytes=True\<close> and a process that writes
  \<^verbatim>\<open>b'hi\n'\<close>, the result's stdout is the decoded and trimmed text \<^verbatim>\<open>'hi'\<close>,
  not the captured bytes.
\<close>
theorem run_output_bytes_still_decoded:
  "process_outcome (env_exit 0 [0x68, 0x69, 0x0A] []) [''echo'', ''hi'']
       [(''output_bytes'', VBool True)] =
     Inr \<lparr>args = [''echo'', ''hi''], returncode = 0, stdout = Some (Bytes [0x68, 0x69, 0x0A]),
          stderr = Some (Bytes []), stderrout = None\<rparr>
   \<and> fst (run (env_exit 0 [0x68, 0x69, 0x0A] []) [''echo'', ''hi'']
            [(''output_bytes'', VBool True)]) =
     Inr \<lparr>args = [''echo'', ''hi''], returncode = 0, stdout = Some (Str [0x68, 0x69]),
          stderr = Some (Str []), stderrout = Some [0x68, 0x69]\<rparr>"
  by (simp add: eval_defs)

section \<open>Properties of background and wait\_child\<close>

lemma command_str_unbound:
  "load_name background_locals ''command_str'' = Inl (NameError ''command_str'')"
  by (simp add: load_name_def background_locals_def module_globals_def)

lemma spawn_fault_name_error:
  assumes "popen e toks kw = Inl x"
  shows "spawn_background e toks kw = (Inl (NameError ''command_str''), [EvPopen toks kw])"
  using assms
  by (cases x)
     (simp_all add: spawn_background_def on_os_error_def on_exception_def command_str_unbound)

lemma spawn_background_first_event:
  "hd (snd (spawn_background e toks kw)) = EvPopen toks kw"
  by (simp add: spawn_background_def split_beta split: sum.splits error.splits)

lemma shebang_retry_no_handle: "fst (shebang_retry e a kw s) \<noteq> Inr (Some p)"
  by (simp add: shebang_retry_def Let_def split: option.splits list.splits sum.splits)

lemma background_handle_from_first_spawn:
  assumes "fst (background e cmd kw) = Inr h"
  shows "\<exists>toks p. retokenize e cmd = Inr toks \<and> popen e toks kw = Inr p \<and> h = Some p"
proof -
  from assms have ne: "cmd \<noteq> []" by (auto simp: background_def)
  with assms obtain toks where t: "retokenize e cmd = Inr toks"
    by (cases "retokenize e cmd") (auto simp: background_def)
  with assms ne have s: "fst (spawn_background e toks kw) = Inr h"
    by (simp add: background_def)
  show ?thesis
  proof (cases "popen e toks kw")
    case (Inl x)
    with s show ?thesis by (simp add: spawn_fault_name_error)
  next
    case (Inr p)
    with s t show ?thesis by (simp add: spawn_background_def)
  qed
qed

lemmas bg_defs =
  background_def retokenize_def spawn_background_def on_os_error_def on_exception_def
  load_name_def background_locals_def module_globals_def env_noexec_def env0_def
  shebang_retry_def popen_shell_def startswith_def wait_child_def is_popen_def
  posix_split_def shlex_whitespace_def shlex_quotes_def emit_def cons_token_def Let_def

text \<open>
  Claim C2 fails on the code. The kernel refuses \<^verbatim>\<open>/tmp/script\<close> with
  "Exec format error", the file starts with \<^verbatim>\<open>#!\<close> and a shell would run it; yet
  \<^verbatim>\<open>background\<close> raises \<^verbatim>\<open>NameError\<close> for \<^verbatim>\<open>command_str\<close> after the one
  \<^verbatim>\<open>Popen\<close> call: the file is not read and nothing is retried.
\<close>
theorem background_exec_format_error_name_error:
  "popen env_noexec [''/tmp/script''] [] = Inl (OSError (Some ''Exec format error''))
   \<and> open_read2 env_noexec ''/tmp/script'' = Inr ''#!''
   \<and> popen env_noexec [''/tmp/script''] [(''shell'', VBool True)] =
       Inr \<lparr>popen_args = [''/tmp/script''], pid = 4242\<rparr>
   \<and> background env_noexec [''/tmp/script''] [] =
       (Inl (NameError ''command_str''), [EvPopen [''/tmp/script''] []])"
  by (simp add: bg_defs)

lemma shebang_retry_returns_none:
  "shebang_retry env_noexec [''/tmp/script''] [] (Some ''Exec format error'') =
     (Inr None, [EvOpen ''/tmp/script'', EvPopen [''/tmp/script''] [(''shell'', VBool True)]])"
  by (simp add: bg_defs)

text \<open>
  Claim C7 as stated fails: the single argument \<^verbatim>\<open>'ls\t-l'\<close> contains whitespace
  and \<^verbatim>\<open>shlex.split\<close> would make two tokens of it, but it is spawned as one argument.
\<close>
theorem tab_argument_not_tokenized:
  "CHR 0x09 \<in> set (''ls'' @ [CHR 0x09] @ ''-l'')
   \<and> shlex_split env0 (''ls'' @ [CHR 0x09] @ ''-l'') = Inr [''ls'', ''-l'']
   \<and> background env0 [''ls'' @ [CHR 0x09] @ ''-l''] [] =
       (Inr (Some \<lparr>popen_args = [''ls'' @ [CHR 0x09] @ ''-l''], pid = 4242\<rparr>),
        [EvPopen [''ls'' @ [CHR 0x09] @ ''-l''] []])"
  by (simp add: bg_defs)

text \<open>
  Claim C7, amended. A single argument that contains a space character is split with
  \<^verbatim>\<open>shlex.split\<close>, and the tokens are what is spawned: the call behaves as the
  \<^verbatim>\<open>try\<close> statement on the tokens, whose first act is \<^verbatim>\<open>Popen\<close> on them.
\<close>
theorem single_argument_with_space_tokenized:
  assumes "CHR '' '' \<in> set a" and "shlex_split e a = Inr toks"
  shows "background e [a] kwargs = spawn_background e toks kwargs
         \<and> hd (snd (background e [a] kwargs)) = EvPopen toks kwargs"
proof -
  have "background e [a] kwargs = spawn_background e toks kwargs"
    using assms by (simp add: background_def retokenize_def)
  then show ?thesis by (simp add: spawn_background_first_event)
qed

text \<open>Claim C7, amended, at the single argument \<^verbatim>\<open>'ls -l'\<close>.\<close>
theorem single_argument_with_space_tokenized_witness:
  "CHR '' '' \<in> set ''ls -l'' \<and> shlex_split env0 ''ls -l'' = Inr [''ls'', ''-l'']
   \<and> background env0 [''ls -l''] [] =
       (Inr (Some \<lparr>popen_args = [''ls'', ''-l''], pid = 4242\<rparr>), [EvPopen [''ls'', ''-l''] []])"
proof -
  have 1: "CHR '' '' \<in> set ''ls -l''" by simp
  have 2: "shlex_split env0 ''ls -l'' = Inr [''ls'', ''-l'']" by (simp add: bg_defs)
  have 3: "spawn_background env0 [''ls'', ''-l''] [] =
       (Inr (Some \<lparr>popen_args = [''ls'', ''-l''], pid = 4242\<rparr>), [EvPopen [''ls'', ''-l''] []])"
    by (simp add: bg_defs)
  show ?thesis
    using single_argument_with_space_tokenized [OF 1 2, of "[]"] 1 2 3 by simp
qed

lemma single_argument_tokenizer_error:
  assumes "CHR '' '' \<in> set a" and "shlex_split e a = Inl x"
  shows "background e [a] kwargs = (Inl x, [])"
  using assms by (simp add: background_def retokenize_def)

lemma single_argument_without_space:
  assumes "CHR '' '' \<notin> set a"
  shows "background e [a] kwargs = spawn_background e [a] kwargs"
  using assms by (simp add: background_def retokenize_def)

text \<open>
  Claim C8. \<^verbatim>\<open>background\<close> without arguments raises \<^verbatim>\<open>ValueError\<close>, and
  \<^verbatim>\<open>wait_child\<close> raises \<^verbatim>\<open>ValueError\<close> for anything that is not a Popen object;
  neither makes any call to the operating system before raising.
\<close>
theorem invalid_input_surfaced_immediately:
  "background e [] kwargs = (Inl (ValueError ''missing command''), [])
   \<and> (\<not> is_popen obj \<longrightarrow>
        wait_child e obj =
          (Inl (ValueError ''program must be an instance of subprocess.Popen''), []))"
  by (cases obj) (simp_all add: background_def wait_child_def is_popen_def)

text \<open>Claim C8 at a string handed to \<^verbatim>\<open>wait_child\<close>.\<close>
theorem invalid_input_surfaced_immediately_witness:
  "\<not> is_popen (StrObj ''sleep 1'')
   \<and> background env0 [] [] = (Inl (ValueError ''missing command''), [])
   \<and> wait_child env0 (StrObj ''sleep 1'') =
       (Inl (ValueError ''program must be an instance of subprocess.Popen''), [])"
  using invalid_input_surfaced_immediately [of env0 "[]" "StrObj ''sleep 1''"]
  by (simp add: is_popen_def)

end
